theory Spec2Isabelle
  imports Main "HOL-Library.Char_ord" "HOL-Library.List_Lexorder" "HOL-Library.Multiset"
begin

section \<open>Sistema Otica: the store, the bootstrapper and the endpoints of app.py\<close>

text \<open>
  The program keeps two tables in an SQLite file and reads them through five endpoints.
  The embedding below follows \<^verbatim>\<open>app.py\<close> function by function. Text values are byte
  strings in UTF-8, so that the order on \<^typ>\<open>string\<close> (bytes compared left to right, a
  proper prefix first) is the BINARY collation that \<^verbatim>\<open>ORDER BY nome\<close> uses.
\<close>

subsection \<open>Rows and tables (the two CREATE TABLE statements)\<close>

text \<open>
  One field per column. A column declared without \<^verbatim>\<open>NOT NULL\<close> holds an option;
  \<^verbatim>\<open>ativo INTEGER DEFAULT 1\<close> is an integer column, and the queries compare it with 1.
\<close>

record empresa =
  e_id :: int
  e_nome :: string
  e_cnpj :: "string option"
  e_email :: "string option"
  e_telefone :: "string option"
  e_ativo :: "int option"
  e_created_at :: "string option"

record usuario =
  u_id :: int
  u_empresa_id :: int
  u_nome :: string
  u_email :: string
  u_senha_hash :: string
  u_funcao :: "string option"
  u_ativo :: "int option"
  u_created_at :: "string option"

text \<open>
  A table is its rows, in rowid order of insertion, and the counter that
  \<^verbatim>\<open>AUTOINCREMENT\<close> keeps for it in \<^verbatim>\<open>sqlite_sequence\<close> (0 while the table has no entry
  there): the largest rowid the table has ever held.
\<close>

record 'r tabela =
  linhas :: "'r list"
  seq_auto :: int

text \<open>
  The store behind \<^verbatim>\<open>DB_PATH\<close>. \<open>abre\<close> says whether \<^verbatim>\<open>sqlite3.connect(DB_PATH)\<close>
  succeeds (a missing file is created by the engine and opens; a path that cannot be
  opened does not). A table that has not been created is \<open>None\<close>. \<open>sqlite_sequence\<close>
  says whether the engine's table of that name exists, and \<open>outras_tabelas\<close> counts the
  table objects of \<^verbatim>\<open>sqlite_master\<close> that are none of these three.
\<close>

record banco =
  abre :: bool
  empresas :: "empresa tabela option"
  usuarios :: "usuario tabela option"
  sqlite_sequence :: bool
  outras_tabelas :: nat

subsection \<open>The process environment and the libraries\<close>

record token_data =
  td_user_id :: int
  td_empresa_id :: int
  td_email :: string
  td_funcao :: "string option"
  td_exp :: int

text \<open>
  \<^verbatim>\<open>SECRET_KEY\<close> and \<^verbatim>\<open>ENVIRONMENT\<close> are read from the process environment when the
  module is loaded. \<^verbatim>\<open>hashlib.sha256(s.encode()).hexdigest()\<close> and
  \<^verbatim>\<open>jwt.encode(data, key, algorithm="HS256")\<close> are library functions outside the
  repository and are taken as parameters. All four stay the same from call to call.
\<close>

record ambiente =
  SECRET_KEY :: string
  ENVIRONMENT :: string
  sha256_hexdigest :: "string \<Rightarrow> string"
  jwt_encode :: "token_data \<Rightarrow> string \<Rightarrow> string"

text \<open>
  What the clock shows during one call: \<^verbatim>\<open>datetime.utcnow()\<close> in seconds since the
  epoch, \<^verbatim>\<open>datetime.now().isoformat()\<close>, and SQL's \<^verbatim>\<open>CURRENT_TIMESTAMP\<close>.
\<close>

record relogio =
  utcnow :: int
  now_isoformat :: string
  CURRENT_TIMESTAMP :: string

definition timedelta_days :: "int \<Rightarrow> int" where
  "timedelta_days d = d * 86400"

subsection \<open>Exceptions\<close>

text \<open>
  The engine's exceptions carry their message; \<open>str\<close> is Python's \<^verbatim>\<open>str(e)\<close>.
  An endpoint ends with a value or with an \<^verbatim>\<open>HTTPException(status_code, detail)\<close>.
\<close>

datatype erro = OperationalError string | IntegrityError string

fun str :: "erro \<Rightarrow> string" where
  "str (OperationalError m) = m"
| "str (IntegrityError m) = m"

datatype excecao = Erro_sqlite erro | HTTPException nat string

definition credenciais_invalidas :: string where
  "credenciais_invalidas = ''Credenciais inv'' @ [CHR 0xC3, CHR 0xA1] @ ''lidas''"

subsection \<open>The statements the program sends to the engine\<close>

definition connect :: "banco \<Rightarrow> erro + unit" where
  "connect bd =
     (if abre bd then Inr () else Inl (OperationalError ''unable to open database file''))"

text \<open>
  \<^verbatim>\<open>CREATE TABLE IF NOT EXISTS\<close>: nothing happens to a table that exists. Creating
  a table with an \<^verbatim>\<open>AUTOINCREMENT\<close> key makes the engine create
  \<^verbatim>\<open>sqlite_sequence\<close> as well.
\<close>

definition create_table_empresas :: "banco \<Rightarrow> banco" where
  "create_table_empresas bd =
     (case empresas bd of
        Some t \<Rightarrow> bd
      | None \<Rightarrow> bd\<lparr>empresas := Some \<lparr>linhas = [], seq_auto = 0\<rparr>, sqlite_sequence := True\<rparr>)"

definition create_table_usuarios :: "banco \<Rightarrow> banco" where
  "create_table_usuarios bd =
     (case usuarios bd of
        Some t \<Rightarrow> bd
      | None \<Rightarrow> bd\<lparr>usuarios := Some \<lparr>linhas = [], seq_auto = 0\<rparr>, sqlite_sequence := True\<rparr>)"

definition select_count_empresas :: "banco \<Rightarrow> erro + nat" where
  "select_count_empresas bd =
     (case empresas bd of
        None \<Rightarrow> Inl (OperationalError ''no such table: empresas'')
      | Some t \<Rightarrow> Inr (length (linhas t)))"

text \<open>
  The key of a new row: one more than the largest rowid the table holds or has ever
  held. Rowids are unbounded integers here; the exhaustion of the 64-bit rowid space
  is not modelled.
\<close>

definition proximo_rowid :: "int list \<Rightarrow> int \<Rightarrow> int" where
  "proximo_rowid ids s = fold max ids s + 1"

text \<open>
  \<^verbatim>\<open>INSERT INTO empresas (nome, cnpj, email, telefone) VALUES (...)\<close>: the key is
  assigned, \<open>ativo\<close> and \<open>created_at\<close> take their defaults.
\<close>

definition insert_empresa ::
  "string \<Rightarrow> string \<Rightarrow> string \<Rightarrow> string \<Rightarrow> string \<Rightarrow> banco \<Rightarrow> erro + banco" where
  "insert_empresa ts nome cnpj email telefone bd =
     (case empresas bd of
        None \<Rightarrow> Inl (OperationalError ''no such table: empresas'')
      | Some t \<Rightarrow>
          let k = proximo_rowid (map e_id (linhas t)) (seq_auto t) in
          Inr (bd\<lparr>empresas := Some \<lparr>linhas = linhas t @
                 [\<lparr>e_id = k, e_nome = nome, e_cnpj = Some cnpj, e_email = Some email,
                   e_telefone = Some telefone, e_ativo = Some 1, e_created_at = Some ts\<rparr>],
                 seq_auto = k\<rparr>\<rparr>))"

text \<open>
  \<^verbatim>\<open>INSERT INTO usuarios (empresa_id, nome, email, senha_hash, funcao) VALUES (...)\<close>.
  \<^verbatim>\<open>email TEXT NOT NULL UNIQUE\<close> rejects an email that a row already holds. The
  \<^verbatim>\<open>FOREIGN KEY\<close> clause is declared but not checked: the engine enforces foreign keys
  only on a connection that has issued \<^verbatim>\<open>PRAGMA foreign_keys = ON\<close>, which the program
  never does.
\<close>

definition insert_usuario ::
  "string \<Rightarrow> int \<Rightarrow> string \<Rightarrow> string \<Rightarrow> string \<Rightarrow> string \<Rightarrow> banco \<Rightarrow> erro + banco" where
  "insert_usuario ts empresa_id nome email senha_hash funcao bd =
     (case usuarios bd of
        None \<Rightarrow> Inl (OperationalError ''no such table: usuarios'')
      | Some t \<Rightarrow>
          if email \<in> set (map u_email (linhas t))
          then Inl (IntegrityError ''UNIQUE constraint failed: usuarios.email'')
          else
            let k = proximo_rowid (map u_id (linhas t)) (seq_auto t) in
            Inr (bd\<lparr>usuarios := Some \<lparr>linhas = linhas t @
                   [\<lparr>u_id = k, u_empresa_id = empresa_id, u_nome = nome, u_email = email,
                     u_senha_hash = senha_hash, u_funcao = Some funcao, u_ativo = Some 1,
                     u_created_at = Some ts\<rparr>],
                   seq_auto = k\<rparr>\<rparr>))"

subsection \<open>criar_banco_basico\<close>

definition otica_vision :: string where
  "otica_vision = [CHR 0xC3, CHR 0x93] @ ''tica Vision''"

text \<open>
  The result is the outcome (\<open>Inl e\<close> when an exception leaves the function) and the
  store afterwards. The two \<^verbatim>\<open>CREATE TABLE\<close> statements take effect at once; the two
  \<^verbatim>\<open>INSERT\<close>s belong to one transaction that only \<^verbatim>\<open>conn.commit()\<close> makes permanent, so
  an exception in either of them leaves the store as it was after the table creation.
\<close>

definition criar_banco_basico :: "ambiente \<Rightarrow> relogio \<Rightarrow> banco \<Rightarrow> (erro + unit) \<times> banco" where
  "criar_banco_basico amb rel bd =
     (case connect bd of
        Inl e \<Rightarrow> (Inl e, bd)
      | Inr conn \<Rightarrow>
          let c1 = create_table_empresas bd;
              c2 = create_table_usuarios c1
          in (case select_count_empresas c2 of
                Inl e \<Rightarrow> (Inl e, c2)
              | Inr n \<Rightarrow>
                  if n = 0 then
                    (case insert_empresa (CURRENT_TIMESTAMP rel) otica_vision
                            ''12.345.678/0001-90'' ''contato@oticavision.com.br''
                            ''(11) 98765-4321'' c2 of
                       Inl e \<Rightarrow> (Inl e, c2)
                     | Inr c3 \<Rightarrow>
                         let senha_hash = sha256_hexdigest amb ''123456'' in
                         (case insert_usuario (CURRENT_TIMESTAMP rel) 1 ''Administrador''
                                 ''admin@oticavision.com.br'' senha_hash ''admin'' c3 of
                            Inl e \<Rightarrow> (Inl e, c2)
                          | Inr c4 \<Rightarrow> (Inr (), c4)))
                  else (Inr (), c2)))"

subsection \<open>get_db\<close>

text \<open>
  The handler runs only when \<^verbatim>\<open>sqlite3.connect\<close> raises; it calls the bootstrapper and
  connects again, and an exception of either leaves \<open>get_db\<close>.
\<close>

definition get_db :: "ambiente \<Rightarrow> relogio \<Rightarrow> banco \<Rightarrow> (erro + unit) \<times> banco" where
  "get_db amb rel bd =
     (case connect bd of
        Inr conn \<Rightarrow> (Inr (), bd)
      | Inl e \<Rightarrow>
          (case criar_banco_basico amb rel bd of
             (Inl e1, bd1) \<Rightarrow> (Inl e1, bd1)
           | (Inr u, bd1) \<Rightarrow>
               (case connect bd1 of
                  Inl e2 \<Rightarrow> (Inl e2, bd1)
                | Inr conn \<Rightarrow> (Inr (), bd1))))"

subsection \<open>status\<close>

text \<open>
  The JSON object that \<open>status\<close> returns. The two return statements build objects with
  different keys; a key that an object does not have is \<open>None\<close> here.
\<close>

record status_payload =
  st_status :: string
  st_database :: bool
  st_ambiente :: "string option"
  st_tabelas :: "nat option"
  st_empresas_ativas :: "nat option"
  st_usuarios_ativos :: "nat option"
  st_erro :: "string option"
  st_timestamp :: string

text \<open>\<^verbatim>\<open>SELECT COUNT(*) FROM sqlite_master WHERE type='table'\<close>: one per table object.\<close>

definition select_count_tabelas :: "banco \<Rightarrow> nat" where
  "select_count_tabelas bd =
     (if empresas bd = None then 0 else 1) + (if usuarios bd = None then 0 else 1)
     + (if sqlite_sequence bd then 1 else 0) + outras_tabelas bd"

definition select_count_empresas_ativas :: "banco \<Rightarrow> erro + nat" where
  "select_count_empresas_ativas bd =
     (case empresas bd of
        None \<Rightarrow> Inl (OperationalError ''no such table: empresas'')
      | Some t \<Rightarrow> Inr (length (filter (\<lambda>e. e_ativo e = Some 1) (linhas t))))"

definition select_count_usuarios_ativos :: "banco \<Rightarrow> erro + nat" where
  "select_count_usuarios_ativos bd =
     (case usuarios bd of
        None \<Rightarrow> Inl (OperationalError ''no such table: usuarios'')
      | Some t \<Rightarrow> Inr (length (filter (\<lambda>u. u_ativo u = Some 1) (linhas t))))"

text \<open>The body of the \<^verbatim>\<open>try\<close> block.\<close>

definition status_try :: "ambiente \<Rightarrow> relogio \<Rightarrow> banco \<Rightarrow> (erro + status_payload) \<times> banco" where
  "status_try amb rel bd =
     (case get_db amb rel bd of
        (Inl e, bd1) \<Rightarrow> (Inl e, bd1)
      | (Inr conn, bd1) \<Rightarrow>
          let total_tabelas = select_count_tabelas bd1 in
          (case select_count_empresas_ativas bd1 of
             Inl e \<Rightarrow> (Inl e, bd1)
           | Inr total_empresas \<Rightarrow>
               (case select_count_usuarios_ativos bd1 of
                  Inl e \<Rightarrow> (Inl e, bd1)
                | Inr total_usuarios \<Rightarrow>
                    (Inr \<lparr>st_status = ''ok'', st_database = True,
                          st_ambiente = Some (ENVIRONMENT amb),
                          st_tabelas = Some total_tabelas,
                          st_empresas_ativas = Some total_empresas,
                          st_usuarios_ativos = Some total_usuarios,
                          st_erro = None,
                          st_timestamp = now_isoformat rel\<rparr>, bd1))))"

text \<open>\<^verbatim>\<open>except Exception as e\<close> returns the second object.\<close>

definition status :: "ambiente \<Rightarrow> relogio \<Rightarrow> banco \<Rightarrow> (excecao + status_payload) \<times> banco" where
  "status amb rel bd =
     (case status_try amb rel bd of
        (Inr p, bd1) \<Rightarrow> (Inr p, bd1)
      | (Inl e, bd1) \<Rightarrow>
          (Inr \<lparr>st_status = ''error'', st_database = False, st_ambiente = None,
                st_tabelas = None, st_empresas_ativas = None, st_usuarios_ativos = None,
                st_erro = Some (str e), st_timestamp = now_isoformat rel\<rparr>, bd1))"

subsection \<open>login\<close>

record LoginRequest =
  email :: string
  password :: string

record resumo_usuario =
  ru_id :: int
  ru_nome :: string
  ru_email :: string
  ru_funcao :: "string option"

record resumo_empresa =
  re_id :: int
  re_nome :: string
  re_cnpj :: "string option"

record LoginResponse =
  token :: string
  usuario :: resumo_usuario
  empresa :: resumo_empresa

text \<open>
  \<^verbatim>\<open>SELECT u.*, e.nome as empresa_nome, e.cnpj FROM usuarios u JOIN empresas e
  ON u.empresa_id = e.id WHERE u.email = ? AND u.senha_hash = ? AND u.ativo = 1\<close>.
  The rows of the inner join, as pairs of a user and its company.
\<close>

definition select_login :: "string \<Rightarrow> string \<Rightarrow> banco \<Rightarrow> erro + (usuario \<times> empresa) list" where
  "select_login em senha_hash bd =
     (case usuarios bd of
        None \<Rightarrow> Inl (OperationalError ''no such table: usuarios'')
      | Some tu \<Rightarrow>
          (case empresas bd of
             None \<Rightarrow> Inl (OperationalError ''no such table: empresas'')
           | Some te \<Rightarrow>
               Inr [(u, e). u \<leftarrow> linhas tu, e \<leftarrow> linhas te,
                            u_empresa_id u = e_id e \<and> u_email u = em
                            \<and> u_senha_hash u = senha_hash \<and> u_ativo u = Some 1]))"

text \<open>\<^verbatim>\<open>cursor.fetchone()\<close>: the first row, or \<^verbatim>\<open>None\<close>.\<close>

definition fetchone :: "'a list \<Rightarrow> 'a option" where
  "fetchone rows = (case rows of [] \<Rightarrow> None | r # rs \<Rightarrow> Some r)"

definition login_try :: "ambiente \<Rightarrow> relogio \<Rightarrow> banco \<Rightarrow> LoginRequest \<Rightarrow> (excecao + LoginResponse) \<times> banco" where
  "login_try amb rel bd request =
     (case get_db amb rel bd of
        (Inl e, bd1) \<Rightarrow> (Inl (Erro_sqlite e), bd1)
      | (Inr conn, bd1) \<Rightarrow>
          let senha_hash = sha256_hexdigest amb (password request) in
          (case select_login (email request) senha_hash bd1 of
             Inl e \<Rightarrow> (Inl (Erro_sqlite e), bd1)
           | Inr rows \<Rightarrow>
               (case fetchone rows of
                  None \<Rightarrow> (Inl (HTTPException 401 credenciais_invalidas), bd1)
                | Some (u, e) \<Rightarrow>
                    let token_data = \<lparr>td_user_id = u_id u,
                                      td_empresa_id = u_empresa_id u,
                                      td_email = u_email u,
                                      td_funcao = u_funcao u,
                                      td_exp = utcnow rel + timedelta_days 7\<rparr>;
                        tk = jwt_encode amb token_data (SECRET_KEY amb)
                    in (Inr \<lparr>token = tk,
                             usuario = \<lparr>ru_id = u_id u, ru_nome = u_nome u,
                                        ru_email = u_email u, ru_funcao = u_funcao u\<rparr>,
                             empresa = \<lparr>re_id = u_empresa_id u, re_nome = e_nome e,
                                        re_cnpj = e_cnpj e\<rparr>\<rparr>, bd1))))"

text \<open>
  \<^verbatim>\<open>except HTTPException: raise\<close> comes first; every other exception becomes the
  server error with the prefixed message.
\<close>

definition login :: "ambiente \<Rightarrow> relogio \<Rightarrow> banco \<Rightarrow> LoginRequest \<Rightarrow> (excecao + LoginResponse) \<times> banco" where
  "login amb rel bd request =
     (case login_try amb rel bd request of
        (Inl (HTTPException c d), bd1) \<Rightarrow> (Inl (HTTPException c d), bd1)
      | (Inl (Erro_sqlite e), bd1) \<Rightarrow> (Inl (HTTPException 500 (''Erro no login: '' @ str e)), bd1)
      | (Inr r, bd1) \<Rightarrow> (Inr r, bd1))"

subsection \<open>listar_usuarios and listar_empresas\<close>

record usuario_item =
  i_id :: int
  i_nome :: string
  i_email :: string
  i_funcao :: "string option"
  i_ativo :: "int option"
  i_empresa_nome :: string

record lista_usuarios =
  lu_total :: nat
  lu_usuarios :: "usuario_item list"


definition item :: "usuario \<Rightarrow> empresa \<Rightarrow> usuario_item" where
  "item u e = \<lparr>i_id = u_id u, i_nome = u_nome u, i_email = u_email u,
               i_funcao = u_funcao u, i_ativo = u_ativo u, i_empresa_nome = e_nome e\<rparr>"

text \<open>The rows of \<^verbatim>\<open>usuarios u JOIN empresas e ON u.empresa_id = e.id\<close>, six columns each.\<close>

definition juncao :: "usuario list \<Rightarrow> empresa list \<Rightarrow> usuario_item list" where
  "juncao us es = [item u e. u \<leftarrow> us, e \<leftarrow> es, u_empresa_id u = e_id e]"

text \<open>
  \<^verbatim>\<open>ORDER BY u.nome\<close>. The engine leaves the order of rows with equal names open;
  the stable sort is one such order, and the theorems below use only that the result
  is sorted and holds the same rows.
\<close>

definition select_usuarios :: "banco \<Rightarrow> erro + usuario_item list" where
  "select_usuarios bd =
     (case usuarios bd of
        None \<Rightarrow> Inl (OperationalError ''no such table: usuarios'')
      | Some tu \<Rightarrow>
          (case empresas bd of
             None \<Rightarrow> Inl (OperationalError ''no such table: empresas'')
           | Some te \<Rightarrow> Inr (sort_key i_nome (juncao (linhas tu) (linhas te)))))"


definition listar_usuarios :: "ambiente \<Rightarrow> relogio \<Rightarrow> banco \<Rightarrow> (excecao + lista_usuarios) \<times> banco" where
  "listar_usuarios amb rel bd =
     (case get_db amb rel bd of
        (Inl e, bd1) \<Rightarrow> (Inl (HTTPException 500 (str e)), bd1)
      | (Inr conn, bd1) \<Rightarrow>
          (case select_usuarios bd1 of
             Inl e \<Rightarrow> (Inl (HTTPException 500 (str e)), bd1)
           | Inr us \<Rightarrow> (Inr \<lparr>lu_total = length us, lu_usuarios = us\<rparr>, bd1)))"


subsection \<open>Stores and an environment to evaluate on\<close>

text \<open>A new file: it opens and holds no table.\<close>

definition banco_vazio :: banco where
  "banco_vazio = \<lparr>abre = True, empresas = None, usuarios = None,
                  sqlite_sequence = False, outras_tabelas = 0\<rparr>"

text \<open>
  An environment with the default key and label of the program. The two library
  functions are stand-ins that keep different arguments apart. The general theorems
  hold for every pair of functions; only the evaluations on the stores of this
  subsection use the stand-ins.
\<close>

definition amb_padrao :: ambiente where
  "amb_padrao = \<lparr>SECRET_KEY = ''optica-secret-key-2026'', ENVIRONMENT = ''production'',
                 sha256_hexdigest = (\<lambda>s. ''sha256:'' @ s),
                 jwt_encode = (\<lambda>d k. ''HS256.'' @ td_email d @ ''.'' @ k)\<rparr>"

definition rel_1 :: relogio where
  "rel_1 = \<lparr>utcnow = 1000, now_isoformat = ''2026-01-01T00:16:40'',
            CURRENT_TIMESTAMP = ''2026-01-01 00:16:40''\<rparr>"

definition rel_2 :: relogio where
  "rel_2 = \<lparr>utcnow = 2000, now_isoformat = ''2026-01-01T00:33:20'',
            CURRENT_TIMESTAMP = ''2026-01-01 00:33:20''\<rparr>"

text \<open>
  A store with an inactive company and an inactive user, whose rows are not stored in
  name order.
\<close>

definition banco_exemplo :: banco where
  "banco_exemplo =
     \<lparr>abre = True,
      empresas = Some \<lparr>linhas =
        [\<lparr>e_id = 1, e_nome = otica_vision, e_cnpj = Some ''12.345.678/0001-90'',
          e_email = Some ''contato@oticavision.com.br'', e_telefone = Some ''(11) 98765-4321'',
          e_ativo = Some 1, e_created_at = Some ''2026-01-01 00:16:40''\<rparr>,
         \<lparr>e_id = 2, e_nome = ''Joalheria Aurora'', e_cnpj = None,
          e_email = None, e_telefone = None,
          e_ativo = Some 0, e_created_at = Some ''2026-01-02 09:00:00''\<rparr>],
        seq_auto = 2\<rparr>,
      usuarios = Some \<lparr>linhas =
        [\<lparr>u_id = 1, u_empresa_id = 1, u_nome = ''Administrador'',
          u_email = ''admin@oticavision.com.br'',
          u_senha_hash = sha256_hexdigest amb_padrao ''123456'',
          u_funcao = Some ''admin'', u_ativo = Some 1,
          u_created_at = Some ''2026-01-01 00:16:40''\<rparr>,
         \<lparr>u_id = 2, u_empresa_id = 2, u_nome = ''Zeca'',
          u_email = ''zeca@aurora.com.br'',
          u_senha_hash = sha256_hexdigest amb_padrao ''segredo'',
          u_funcao = Some ''vendedor'', u_ativo = Some 0,
          u_created_at = Some ''2026-01-02 09:05:00''\<rparr>,
         \<lparr>u_id = 3, u_empresa_id = 1, u_nome = ''Bia'',
          u_email = ''bia@oticavision.com.br'',
          u_senha_hash = sha256_hexdigest amb_padrao ''abc'',
          u_funcao = None, u_ativo = Some 1,
          u_created_at = Some ''2026-01-03 10:00:00''\<rparr>],
        seq_auto = 3\<rparr>,
      sqlite_sequence = True, outras_tabelas = 0\<rparr>"

subsection \<open>The rows a store holds, and the condition of the login query in words\<close>

text \<open>The rows of a table, none when the table does not exist.\<close>

definition linhas_empresas :: "banco \<Rightarrow> empresa list" where
  "linhas_empresas bd = (case empresas bd of None \<Rightarrow> [] | Some t \<Rightarrow> linhas t)"

definition linhas_usuarios :: "banco \<Rightarrow> usuario list" where
  "linhas_usuarios bd = (case usuarios bd of None \<Rightarrow> [] | Some t \<Rightarrow> linhas t)"

text \<open>
  A user row exists whose email is the supplied one, whose stored digest is the digest
  of the supplied password and whose active flag is 1, and a company row has the
  identifier the user row refers to.
\<close>

definition existe_linha :: "ambiente \<Rightarrow> banco \<Rightarrow> LoginRequest \<Rightarrow> bool" where
  "existe_linha amb bd request =
     (\<exists>u \<in> set (linhas_usuarios bd).
        u_email u = email request
        \<and> u_senha_hash u = sha256_hexdigest amb (password request)
        \<and> u_ativo u = Some 1
        \<and> (\<exists>e \<in> set (linhas_empresas bd). e_id e = u_empresa_id u))"

subsection \<open>The seed rows and the store between table creation and seeding\<close>

definition admin_email :: string where
  "admin_email = ''admin@oticavision.com.br''"

text \<open>The counter of a table, 0 when the table does not exist.\<close>

definition seq_empresas :: "banco \<Rightarrow> int" where
  "seq_empresas bd = (case empresas bd of None \<Rightarrow> 0 | Some t \<Rightarrow> seq_auto t)"

definition seq_usuarios :: "banco \<Rightarrow> int" where
  "seq_usuarios bd = (case usuarios bd of None \<Rightarrow> 0 | Some t \<Rightarrow> seq_auto t)"

text \<open>
  The two rows of the \<^verbatim>\<open>INSERT\<close> statements of the bootstrapper, with the key the
  engine assigns and the time of insertion. The user row carries the literal 1 of the
  statement as its company identifier.
\<close>

definition empresa_semente :: "int \<Rightarrow> string \<Rightarrow> empresa" where
  "empresa_semente k ts =
     \<lparr>e_id = k, e_nome = otica_vision, e_cnpj = Some ''12.345.678/0001-90'',
      e_email = Some ''contato@oticavision.com.br'', e_telefone = Some ''(11) 98765-4321'',
      e_ativo = Some 1, e_created_at = Some ts\<rparr>"

definition usuario_semente :: "ambiente \<Rightarrow> int \<Rightarrow> string \<Rightarrow> usuario" where
  "usuario_semente amb j ts =
     \<lparr>u_id = j, u_empresa_id = 1, u_nome = ''Administrador'', u_email = admin_email,
      u_senha_hash = sha256_hexdigest amb ''123456'', u_funcao = Some ''admin'',
      u_ativo = Some 1, u_created_at = Some ts\<rparr>"

text \<open>The store after the two \<^verbatim>\<open>CREATE TABLE IF NOT EXISTS\<close> statements.\<close>

definition tabelas_criadas :: "banco \<Rightarrow> banco" where
  "tabelas_criadas bd = create_table_usuarios (create_table_empresas bd)"


text \<open>
  The store left when the bootstrapper has seeded a new file and the rows of both
  tables have then been deleted: both tables exist and are empty, and both counters
  stand at 1.
\<close>

definition banco_esvaziado :: banco where
  "banco_esvaziado =
     \<lparr>abre = True,
      empresas = Some \<lparr>linhas = [], seq_auto = 1\<rparr>,
      usuarios = Some \<lparr>linhas = [], seq_auto = 1\<rparr>,
      sqlite_sequence = True, outras_tabelas = 0\<rparr>"

subsection \<open>Login requests to evaluate on\<close>

text \<open>
  The administrator with the seeded password and with another one, and the inactive
  user of the example store with the password that matches the stored digest.
\<close>

definition pedido_admin :: LoginRequest where
  "pedido_admin = \<lparr>email = admin_email, password = ''123456''\<rparr>"

definition pedido_senha_errada :: LoginRequest where
  "pedido_senha_errada = \<lparr>email = admin_email, password = ''654321''\<rparr>"

definition pedido_inativo :: LoginRequest where
  "pedido_inativo = \<lparr>email = ''zeca@aurora.com.br'', password = ''segredo''\<rparr>"

text \<open>What the example store answers to the administrator at the second clock reading.\<close>

definition resposta_admin :: LoginResponse where
  "resposta_admin =
     \<lparr>token = jwt_encode amb_padrao
                \<lparr>td_user_id = 1, td_empresa_id = 1, td_email = admin_email,
                 td_funcao = Some ''admin'', td_exp = 606800\<rparr> (SECRET_KEY amb_padrao),
      usuario = \<lparr>ru_id = 1, ru_nome = ''Administrador'', ru_email = admin_email,
                 ru_funcao = Some ''admin''\<rparr>,
      empresa = \<lparr>re_id = 1, re_nome = otica_vision,
                 re_cnpj = Some ''12.345.678/0001-90''\<rparr>\<rparr>"

section \<open>What the functions compute\<close>

text \<open>
  Whether the file opens does not change between the two attempts of \<open>get_db\<close>, so
  the handler's call of the bootstrapper fails where the first attempt failed: \<open>get_db\<close>
  never changes the store.
\<close>

lemma get_db_eq:
  "get_db amb rel bd =
     (if abre bd then Inr () else Inl (OperationalError ''unable to open database file''), bd)"
  by (simp add: get_db_def criar_banco_basico_def connect_def)

lemma status_try_eq:
  "status_try amb rel bd =
     (if \<not> abre bd then Inl (OperationalError ''unable to open database file'')
      else case empresas bd of
             None \<Rightarrow> Inl (OperationalError ''no such table: empresas'')
           | Some te \<Rightarrow>
               (case usuarios bd of
                  None \<Rightarrow> Inl (OperationalError ''no such table: usuarios'')
                | Some tu \<Rightarrow>
                    Inr \<lparr>st_status = ''ok'', st_database = True,
                         st_ambiente = Some (ENVIRONMENT amb),
                         st_tabelas = Some (select_count_tabelas bd),
                         st_empresas_ativas =
                           Some (length (filter (\<lambda>e. e_ativo e = Some 1) (linhas te))),
                         st_usuarios_ativos =
                           Some (length (filter (\<lambda>u. u_ativo u = Some 1) (linhas tu))),
                         st_erro = None,
                         st_timestamp = now_isoformat rel\<rparr>), bd)"
  by (simp add: status_try_def get_db_eq select_count_empresas_ativas_def
        select_count_usuarios_ativos_def split: option.splits)

lemma select_login_mem:
  assumes "select_login em h bd = Inr rows"
  shows "(u, e) \<in> set rows \<longleftrightarrow>
           u \<in> set (linhas_usuarios bd) \<and> e \<in> set (linhas_empresas bd)
           \<and> u_empresa_id u = e_id e \<and> u_email u = em \<and> u_senha_hash u = h
           \<and> u_ativo u = Some 1"
  using assms
  by (auto simp: select_login_def linhas_usuarios_def linhas_empresas_def
           split: option.splits)

lemma select_login_Inr:
  "(\<exists>rows. select_login em h bd = Inr rows) \<longleftrightarrow> usuarios bd \<noteq> None \<and> empresas bd \<noteq> None"
  by (auto simp: select_login_def split: option.splits)

lemma login_eq:
  "login amb rel bd request =
     (if \<not> abre bd
      then Inl (HTTPException 500 (''Erro no login: '' @ ''unable to open database file''))
      else case select_login (email request) (sha256_hexdigest amb (password request)) bd of
             Inl e \<Rightarrow> Inl (HTTPException 500 (''Erro no login: '' @ str e))
           | Inr rows \<Rightarrow>
               (case rows of
                  [] \<Rightarrow> Inl (HTTPException 401 credenciais_invalidas)
                | (u, e) # rs \<Rightarrow>
                    Inr \<lparr>token = jwt_encode amb
                                   \<lparr>td_user_id = u_id u, td_empresa_id = u_empresa_id u,
                                    td_email = u_email u, td_funcao = u_funcao u,
                                    td_exp = utcnow rel + timedelta_days 7\<rparr> (SECRET_KEY amb),
                         usuario = \<lparr>ru_id = u_id u, ru_nome = u_nome u,
                                    ru_email = u_email u, ru_funcao = u_funcao u\<rparr>,
                         empresa = \<lparr>re_id = u_empresa_id u, re_nome = e_nome e,
                                    re_cnpj = e_cnpj e\<rparr>\<rparr>), bd)"
  by (simp add: login_def login_try_def get_db_eq fetchone_def Let_def
           split: sum.splits list.splits prod.splits)

section \<open>The status summary\<close>

text \<open>
  C8. No failure leaves \<open>status\<close> as an exception. Whatever the \<^verbatim>\<open>try\<close> block raises
  (the file does not open, the table \<open>empresas\<close> or \<open>usuarios\<close> is missing), the
  function returns the object with status "error", database false and the text of the
  exception.
\<close>

theorem status_catches_every_failure:
  "(\<exists>p. fst (status amb rel bd) = Inr p)
   \<and> (\<forall>e. fst (status_try amb rel bd) = Inl e \<longrightarrow>
          fst (status amb rel bd) =
            Inr \<lparr>st_status = ''error'', st_database = False, st_ambiente = None,
                 st_tabelas = None, st_empresas_ativas = None, st_usuarios_ativos = None,
                 st_erro = Some (str e), st_timestamp = now_isoformat rel\<rparr>)
   \<and> (\<not> abre bd \<longrightarrow>
          fst (status_try amb rel bd) = Inl (OperationalError ''unable to open database file''))
   \<and> (abre bd \<and> empresas bd = None \<longrightarrow>
          fst (status_try amb rel bd) = Inl (OperationalError ''no such table: empresas''))
   \<and> (abre bd \<and> empresas bd \<noteq> None \<and> usuarios bd = None \<longrightarrow>
          fst (status_try amb rel bd) = Inl (OperationalError ''no such table: usuarios''))"
  by (auto simp: status_def status_try_eq split: option.splits)

theorem status_catches_every_failure_witness:
  "fst (status amb_padrao rel_1 banco_vazio) =
     Inr \<lparr>st_status = ''error'', st_database = False, st_ambiente = None,
          st_tabelas = None, st_empresas_ativas = None, st_usuarios_ativos = None,
          st_erro = Some ''no such table: empresas'',
          st_timestamp = ''2026-01-01T00:16:40''\<rparr>"
proof -
  have h: "abre banco_vazio \<and> empresas banco_vazio = None"
    by (simp add: banco_vazio_def)
  from status_catches_every_failure [of amb_padrao rel_1 banco_vazio] h
  have "fst (status amb_padrao rel_1 banco_vazio) =
     Inr \<lparr>st_status = ''error'', st_database = False, st_ambiente = None,
          st_tabelas = None, st_empresas_ativas = None, st_usuarios_ativos = None,
          st_erro = Some (str (OperationalError ''no such table: empresas'')),
          st_timestamp = now_isoformat rel_1\<rparr>"
    by blast
  then show ?thesis by (simp add: rel_1_def)
qed

text \<open>
  C7. When the store opens and both tables exist (the three queries succeed), the
  summary counts the company rows with \<open>ativo = 1\<close> and the user rows with \<open>ativo = 1\<close>,
  and its table count is the number of table objects of the schema: the two tables,
  \<open>sqlite_sequence\<close> when it exists, and the others. Replacing the rows of both
  tables leaves the table count as it is.
\<close>

theorem status_counts_active_rows:
  assumes "abre bd" and "empresas bd = Some te" and "usuarios bd = Some tu"
  shows "fst (status amb rel bd) =
           Inr \<lparr>st_status = ''ok'', st_database = True,
                st_ambiente = Some (ENVIRONMENT amb),
                st_tabelas = Some (2 + (if sqlite_sequence bd then 1 else 0) + outras_tabelas bd),
                st_empresas_ativas = Some (length (filter (\<lambda>e. e_ativo e = Some 1) (linhas te))),
                st_usuarios_ativos = Some (length (filter (\<lambda>u. u_ativo u = Some 1) (linhas tu))),
                st_erro = None, st_timestamp = now_isoformat rel\<rparr>
         \<and> map_sum id st_tabelas
             (fst (status amb rel (bd\<lparr>empresas := Some (te\<lparr>linhas := les\<rparr>),
                                      usuarios := Some (tu\<lparr>linhas := lus\<rparr>)\<rparr>)))
           = map_sum id st_tabelas (fst (status amb rel bd))"
  using assms by (simp add: status_def status_try_eq select_count_tabelas_def)

theorem status_counts_active_rows_witness:
  "fst (status amb_padrao rel_2 banco_exemplo) =
     Inr \<lparr>st_status = ''ok'', st_database = True, st_ambiente = Some ''production'',
          st_tabelas = Some 3, st_empresas_ativas = Some 1, st_usuarios_ativos = Some 2,
          st_erro = None, st_timestamp = ''2026-01-01T00:33:20''\<rparr>"
proof -
  let ?te = "the (empresas banco_exemplo)" and ?tu = "the (usuarios banco_exemplo)"
  have h: "abre banco_exemplo" "empresas banco_exemplo = Some ?te"
    "usuarios banco_exemplo = Some ?tu"
    by (simp_all add: banco_exemplo_def)
  show ?thesis
    using status_counts_active_rows [OF h, of amb_padrao rel_2 "[]" "[]"]
    by (simp add: banco_exemplo_def amb_padrao_def rel_2_def)
qed

section \<open>The bootstrapper\<close>

lemma tabelas_criadas_simps:
  "abre (tabelas_criadas bd) = abre bd"
  "linhas_empresas (tabelas_criadas bd) = linhas_empresas bd"
  "linhas_usuarios (tabelas_criadas bd) = linhas_usuarios bd"
  "seq_empresas (tabelas_criadas bd) = seq_empresas bd"
  "seq_usuarios (tabelas_criadas bd) = seq_usuarios bd"
  "empresas (tabelas_criadas bd) \<noteq> None"
  "usuarios (tabelas_criadas bd) \<noteq> None"
  "outras_tabelas (tabelas_criadas bd) = outras_tabelas bd"
  by (simp_all add: tabelas_criadas_def create_table_usuarios_def create_table_empresas_def
        linhas_empresas_def linhas_usuarios_def seq_empresas_def seq_usuarios_def
        split: option.splits)

lemma linhas_atualiza:
  "linhas_empresas (bd\<lparr>empresas := Some te\<rparr>) = linhas te"
  "linhas_usuarios (bd\<lparr>usuarios := Some tu\<rparr>) = linhas tu"
  "linhas_empresas (bd\<lparr>usuarios := y\<rparr>) = linhas_empresas bd"
  "linhas_usuarios (bd\<lparr>empresas := x\<rparr>) = linhas_usuarios bd"
  by (simp_all add: linhas_empresas_def linhas_usuarios_def)

lemma tabelas_criadas_idem:
  "empresas bd \<noteq> None \<Longrightarrow> usuarios bd \<noteq> None \<Longrightarrow> tabelas_criadas bd = bd"
  by (auto simp: tabelas_criadas_def create_table_usuarios_def create_table_empresas_def)

lemma criar_sem_abrir:
  "\<not> abre bd \<Longrightarrow>
     criar_banco_basico amb rel bd = (Inl (OperationalError ''unable to open database file''), bd)"
  by (simp add: criar_banco_basico_def connect_def)

lemma criar_com_empresas:
  "abre bd \<Longrightarrow> linhas_empresas bd \<noteq> [] \<Longrightarrow>
     criar_banco_basico amb rel bd = (Inr (), tabelas_criadas bd)"
  by (auto simp: criar_banco_basico_def connect_def tabelas_criadas_def Let_def
        create_table_usuarios_def create_table_empresas_def select_count_empresas_def
        linhas_empresas_def split: option.splits)


lemma criar_semeia:
  "abre bd \<Longrightarrow> linhas_empresas bd = [] \<Longrightarrow> admin_email \<notin> u_email ` set (linhas_usuarios bd) \<Longrightarrow>
     criar_banco_basico amb rel bd =
       (Inr (), (tabelas_criadas bd)
          \<lparr>empresas := Some \<lparr>linhas = [empresa_semente (seq_empresas bd + 1) (CURRENT_TIMESTAMP rel)],
                              seq_auto = seq_empresas bd + 1\<rparr>,
           usuarios := Some \<lparr>linhas = linhas_usuarios bd @
                                [usuario_semente amb
                                   (proximo_rowid (map u_id (linhas_usuarios bd)) (seq_usuarios bd))
                                   (CURRENT_TIMESTAMP rel)],
                              seq_auto = proximo_rowid (map u_id (linhas_usuarios bd)) (seq_usuarios bd)\<rparr>\<rparr>)"
  by (auto simp: criar_banco_basico_def connect_def tabelas_criadas_def Let_def
        create_table_usuarios_def create_table_empresas_def select_count_empresas_def
        insert_empresa_def insert_usuario_def admin_email_def proximo_rowid_def
        empresa_semente_def usuario_semente_def seq_empresas_def seq_usuarios_def
        linhas_empresas_def linhas_usuarios_def split: option.splits)


text \<open>
  C2. Starting from a store that opens and holds no company row and no user row (a new
  file in particular), the first run of the bootstrapper succeeds and leaves exactly
  one company row and one user row, and a second run, at whatever time, succeeds and
  returns the very same store: no table is created and no row is inserted.
\<close>

theorem bootstrap_twice:
  assumes "abre bd" and "linhas_empresas bd = []" and "linhas_usuarios bd = []"
  shows "\<exists>bd1. criar_banco_basico amb rel bd = (Inr (), bd1)
           \<and> criar_banco_basico amb rel' bd1 = (Inr (), bd1)
           \<and> length (linhas_empresas bd1) = 1 \<and> length (linhas_usuarios bd1) = 1"
proof -
  let ?bd1 = "snd (criar_banco_basico amb rel bd)"
  from assms(3) have livre: "admin_email \<notin> u_email ` set (linhas_usuarios bd)" by simp
  note primeira = criar_semeia [OF assms(1,2) livre, of amb rel]
  have e1: "linhas_empresas ?bd1 = [empresa_semente (seq_empresas bd + 1) (CURRENT_TIMESTAMP rel)]"
    by (simp add: primeira linhas_atualiza)
  have u1: "length (linhas_usuarios ?bd1) = 1"
    by (simp add: primeira linhas_atualiza assms(3))
  have ab: "abre ?bd1" by (simp add: primeira tabelas_criadas_simps assms(1))
  have tabs: "empresas ?bd1 \<noteq> None" "usuarios ?bd1 \<noteq> None" by (simp_all add: primeira)
  have "criar_banco_basico amb rel' ?bd1 = (Inr (), tabelas_criadas ?bd1)"
    by (rule criar_com_empresas [OF ab]) (simp add: e1)
  then have segunda: "criar_banco_basico amb rel' ?bd1 = (Inr (), ?bd1)"
    by (simp add: tabelas_criadas_idem [OF tabs])
  have "criar_banco_basico amb rel bd = (Inr (), ?bd1)" by (simp add: primeira)
  with segunda e1 u1 show ?thesis by (intro exI [of _ ?bd1]) simp
qed

theorem bootstrap_twice_witness:
  "\<exists>bd1. criar_banco_basico amb_padrao rel_1 banco_vazio = (Inr (), bd1)
         \<and> criar_banco_basico amb_padrao rel_2 bd1 = (Inr (), bd1)
         \<and> length (linhas_empresas bd1) = 1 \<and> length (linhas_usuarios bd1) = 1"
proof -
  have h: "abre banco_vazio" "linhas_empresas banco_vazio = []" "linhas_usuarios banco_vazio = []"
    by (simp_all add: banco_vazio_def linhas_empresas_def linhas_usuarios_def)
  show ?thesis by (rule bootstrap_twice [OF h])
qed




section \<open>Login\<close>

lemma select_login_vazio:
  assumes "select_login em h bd = Inr rows"
  shows "rows = [] \<longleftrightarrow>
           \<not> (\<exists>u \<in> set (linhas_usuarios bd). u_email u = em \<and> u_senha_hash u = h
                 \<and> u_ativo u = Some 1
                 \<and> (\<exists>e \<in> set (linhas_empresas bd). e_id e = u_empresa_id u))"
proof -
  have "rows = [] \<longleftrightarrow> \<not> (\<exists>u e. (u, e) \<in> set rows)"
    by (cases rows) auto
  also have "\<dots> \<longleftrightarrow> \<not> (\<exists>u \<in> set (linhas_usuarios bd). u_email u = em \<and> u_senha_hash u = h
                 \<and> u_ativo u = Some 1
                 \<and> (\<exists>e \<in> set (linhas_empresas bd). e_id e = u_empresa_id u))"
    unfolding select_login_mem [OF assms] by (intro arg_cong [where f=Not]) metis
  finally show ?thesis .
qed

lemma login_admin_exemplo:
  "fst (login amb_padrao rel_2 banco_exemplo pedido_admin) = Inr resposta_admin"
  by (simp add: login_eq select_login_def banco_exemplo_def pedido_admin_def
        resposta_admin_def admin_email_def rel_2_def timedelta_days_def)

lemma linhas_login_semente:
  assumes "admin_email \<notin> u_email ` set us"
  shows "[(u, e). u \<leftarrow> us @ [usuario_semente amb j ts], e \<leftarrow> [empresa_semente 1 ts'],
                  u_empresa_id u = e_id e \<and> u_email u = admin_email
                  \<and> u_senha_hash u = sha256_hexdigest amb ''123456'' \<and> u_ativo u = Some 1]
         = [(usuario_semente amb j ts, empresa_semente 1 ts')]"
  using assms
  by (induction us) (auto simp: usuario_semente_def empresa_semente_def)

lemma select_login_semente:
  assumes "usuarios bd = Some tu" and "empresas bd = Some te"
    and "linhas tu = us @ [usuario_semente amb j ts]"
    and "linhas te = [empresa_semente 1 ts']"
    and "admin_email \<notin> u_email ` set us"
  shows "select_login admin_email (sha256_hexdigest amb ''123456'') bd
           = Inr [(usuario_semente amb j ts, empresa_semente 1 ts')]"
  by (simp only: select_login_def assms(1-4) option.case linhas_login_semente [OF assms(5)])

lemma login_sucesso:
  assumes "fst (login amb rel bd request) = Inr r"
  obtains u e where "u \<in> set (linhas_usuarios bd)" and "e \<in> set (linhas_empresas bd)"
    and "e_id e = u_empresa_id u" and "u_email u = email request"
    and "u_senha_hash u = sha256_hexdigest amb (password request)" and "u_ativo u = Some 1"
    and "r = \<lparr>token = jwt_encode amb
                             \<lparr>td_user_id = u_id u, td_empresa_id = e_id e,
                              td_email = u_email u, td_funcao = u_funcao u,
                              td_exp = utcnow rel + timedelta_days 7\<rparr> (SECRET_KEY amb),
                   usuario = \<lparr>ru_id = u_id u, ru_nome = u_nome u,
                              ru_email = u_email u, ru_funcao = u_funcao u\<rparr>,
                   empresa = \<lparr>re_id = e_id e, re_nome = e_nome e, re_cnpj = e_cnpj e\<rparr>\<rparr>"
proof -
  let ?h = "sha256_hexdigest amb (password request)"
  from assms obtain rows u e rs where
    sel: "select_login (email request) ?h bd = Inr rows" and rows: "rows = (u, e) # rs"
    and r: "r = \<lparr>token = jwt_encode amb
                             \<lparr>td_user_id = u_id u, td_empresa_id = u_empresa_id u,
                              td_email = u_email u, td_funcao = u_funcao u,
                              td_exp = utcnow rel + timedelta_days 7\<rparr> (SECRET_KEY amb),
                   usuario = \<lparr>ru_id = u_id u, ru_nome = u_nome u,
                              ru_email = u_email u, ru_funcao = u_funcao u\<rparr>,
                   empresa = \<lparr>re_id = u_empresa_id u, re_nome = e_nome e, re_cnpj = e_cnpj e\<rparr>\<rparr>"
    by (auto simp: login_eq split: if_splits sum.splits list.splits)
  from rows have "(u, e) \<in> set rows" by simp
  with select_login_mem [OF sel] have
    "u \<in> set (linhas_usuarios bd)" "e \<in> set (linhas_empresas bd)"
    "u_empresa_id u = e_id e" "u_email u = email request" "u_senha_hash u = ?h"
    "u_ativo u = Some 1"
    by simp_all
  with r that [of u e] show ?thesis by simp
qed

text \<open>
  C5. A successful login returns exactly three parts taken from one row of the join:
  the token, the summary of the matched user (id, name, email, role) and the summary of
  the company that owns it (id, name, tax registration). The matched user has the
  supplied email, the digest of the supplied password and the active flag 1.
\<close>

theorem login_payload:
  assumes "fst (login amb rel bd request) = Inr r"
  shows "\<exists>u e. u \<in> set (linhas_usuarios bd) \<and> e \<in> set (linhas_empresas bd)
           \<and> e_id e = u_empresa_id u
           \<and> u_email u = email request
           \<and> u_senha_hash u = sha256_hexdigest amb (password request)
           \<and> u_ativo u = Some 1
           \<and> r = \<lparr>token = jwt_encode amb
                             \<lparr>td_user_id = u_id u, td_empresa_id = e_id e,
                              td_email = u_email u, td_funcao = u_funcao u,
                              td_exp = utcnow rel + timedelta_days 7\<rparr> (SECRET_KEY amb),
                   usuario = \<lparr>ru_id = u_id u, ru_nome = u_nome u,
                              ru_email = u_email u, ru_funcao = u_funcao u\<rparr>,
                   empresa = \<lparr>re_id = e_id e, re_nome = e_nome e, re_cnpj = e_cnpj e\<rparr>\<rparr>"
proof -
  from login_sucesso [OF assms] obtain u e where
    "u \<in> set (linhas_usuarios bd)" "e \<in> set (linhas_empresas bd)"
    "e_id e = u_empresa_id u" "u_email u = email request"
    "u_senha_hash u = sha256_hexdigest amb (password request)" "u_ativo u = Some 1"
    "r = \<lparr>token = jwt_encode amb
                             \<lparr>td_user_id = u_id u, td_empresa_id = e_id e,
                              td_email = u_email u, td_funcao = u_funcao u,
                              td_exp = utcnow rel + timedelta_days 7\<rparr> (SECRET_KEY amb),
                   usuario = \<lparr>ru_id = u_id u, ru_nome = u_nome u,
                              ru_email = u_email u, ru_funcao = u_funcao u\<rparr>,
                   empresa = \<lparr>re_id = e_id e, re_nome = e_nome e, re_cnpj = e_cnpj e\<rparr>\<rparr>"
    by blast
  then show ?thesis by (intro exI [of _ u] exI [of _ e]) simp
qed

theorem login_payload_witness:
  "fst (login amb_padrao rel_2 banco_exemplo pedido_admin) = Inr resposta_admin
   \<and> (\<exists>u e. u \<in> set (linhas_usuarios banco_exemplo) \<and> e \<in> set (linhas_empresas banco_exemplo)
           \<and> e_id e = u_empresa_id u
           \<and> u_email u = email pedido_admin
           \<and> u_senha_hash u = sha256_hexdigest amb_padrao (password pedido_admin)
           \<and> u_ativo u = Some 1
           \<and> resposta_admin = \<lparr>token = jwt_encode amb_padrao
                             \<lparr>td_user_id = u_id u, td_empresa_id = e_id e,
                              td_email = u_email u, td_funcao = u_funcao u,
                              td_exp = utcnow rel_2 + timedelta_days 7\<rparr> (SECRET_KEY amb_padrao),
                   usuario = \<lparr>ru_id = u_id u, ru_nome = u_nome u,
                              ru_email = u_email u, ru_funcao = u_funcao u\<rparr>,
                   empresa = \<lparr>re_id = e_id e, re_nome = e_nome e, re_cnpj = e_cnpj e\<rparr>\<rparr>)"
  using login_admin_exemplo login_payload [OF login_admin_exemplo] by (rule conjI)

text \<open>
  The claims of the token. The token of a successful login encodes, under the secret
  key, the claims user identifier, company identifier, email, role and an expiry seven
  days (7 * 86400 seconds) after the clock reading of the call. On a store that the
  bootstrapper has seeded from a state where it opened, held no company row, had its
  \<open>empresas\<close> counter at 0 and no user with the administrator's email (a new file is
  one), the login of the administrator with "123456" succeeds, with role "admin" and
  the identifier 1 of the seeded company among the claims.
\<close>

theorem login_token_claims:
  "(fst (login amb rel bd request) = Inr r \<longrightarrow>
      (\<exists>u e. u \<in> set (linhas_usuarios bd) \<and> e \<in> set (linhas_empresas bd)
           \<and> e_id e = u_empresa_id u
           \<and> u_email u = email request
           \<and> u_senha_hash u = sha256_hexdigest amb (password request)
           \<and> u_ativo u = Some 1
           \<and> token r = jwt_encode amb
                          \<lparr>td_user_id = u_id u, td_empresa_id = e_id e,
                           td_email = u_email u, td_funcao = u_funcao u,
                           td_exp = utcnow rel + 7 * 86400\<rparr> (SECRET_KEY amb)))
   \<and> (abre bd \<and> linhas_empresas bd = [] \<and> seq_empresas bd = 0
        \<and> admin_email \<notin> u_email ` set (linhas_usuarios bd) \<longrightarrow>
      (\<exists>bd1 j. criar_banco_basico amb rel0 bd = (Inr (), bd1)
          \<and> linhas_empresas bd1 = [empresa_semente 1 (CURRENT_TIMESTAMP rel0)]
          \<and> (\<exists>r1. fst (login amb rel bd1 \<lparr>email = admin_email, password = ''123456''\<rparr>) = Inr r1
                \<and> token r1 = jwt_encode amb
                               \<lparr>td_user_id = j, td_empresa_id = 1,
                                td_email = admin_email, td_funcao = Some ''admin'',
                                td_exp = utcnow rel + 7 * 86400\<rparr> (SECRET_KEY amb))))"
proof (intro conjI impI)
  assume "fst (login amb rel bd request) = Inr r"
  from login_sucesso [OF this] obtain u e where
    "u \<in> set (linhas_usuarios bd)" "e \<in> set (linhas_empresas bd)"
    "e_id e = u_empresa_id u" "u_email u = email request"
    "u_senha_hash u = sha256_hexdigest amb (password request)" "u_ativo u = Some 1"
    "r = \<lparr>token = jwt_encode amb
                             \<lparr>td_user_id = u_id u, td_empresa_id = e_id e,
                              td_email = u_email u, td_funcao = u_funcao u,
                              td_exp = utcnow rel + timedelta_days 7\<rparr> (SECRET_KEY amb),
                   usuario = \<lparr>ru_id = u_id u, ru_nome = u_nome u,
                              ru_email = u_email u, ru_funcao = u_funcao u\<rparr>,
                   empresa = \<lparr>re_id = e_id e, re_nome = e_nome e, re_cnpj = e_cnpj e\<rparr>\<rparr>"
    by blast
  then show "\<exists>u e. u \<in> set (linhas_usuarios bd) \<and> e \<in> set (linhas_empresas bd)
           \<and> e_id e = u_empresa_id u
           \<and> u_email u = email request
           \<and> u_senha_hash u = sha256_hexdigest amb (password request)
           \<and> u_ativo u = Some 1
           \<and> token r = jwt_encode amb
                          \<lparr>td_user_id = u_id u, td_empresa_id = e_id e,
                           td_email = u_email u, td_funcao = u_funcao u,
                           td_exp = utcnow rel + 7 * 86400\<rparr> (SECRET_KEY amb)"
    by (intro exI [of _ u] exI [of _ e]) (simp add: timedelta_days_def)
next
  assume h: "abre bd \<and> linhas_empresas bd = [] \<and> seq_empresas bd = 0
        \<and> admin_email \<notin> u_email ` set (linhas_usuarios bd)"
  then have a: "abre bd" and b: "linhas_empresas bd = []" and c: "seq_empresas bd = 0"
    and d: "admin_email \<notin> u_email ` set (linhas_usuarios bd)" by simp_all
  let ?j = "proximo_rowid (map u_id (linhas_usuarios bd)) (seq_usuarios bd)"
  let ?bd1 = "snd (criar_banco_basico amb rel0 bd)"
  note sem = criar_semeia [OF a b d, of amb rel0]
  have ok: "criar_banco_basico amb rel0 bd = (Inr (), ?bd1)" by (simp add: sem)
  have e1: "linhas_empresas ?bd1 = [empresa_semente 1 (CURRENT_TIMESTAMP rel0)]"
    by (simp add: sem linhas_atualiza c)
  have sel: "select_login admin_email (sha256_hexdigest amb ''123456'') ?bd1
               = Inr [(usuario_semente amb ?j (CURRENT_TIMESTAMP rel0),
                       empresa_semente 1 (CURRENT_TIMESTAMP rel0))]"
  proof (rule select_login_semente [OF _ _ _ _ d])
    show "usuarios ?bd1 = Some \<lparr>linhas = linhas_usuarios bd @
              [usuario_semente amb ?j (CURRENT_TIMESTAMP rel0)], seq_auto = ?j\<rparr>"
      by (simp add: sem)
    show "empresas ?bd1 = Some \<lparr>linhas = [empresa_semente 1 (CURRENT_TIMESTAMP rel0)],
              seq_auto = 1\<rparr>"
      by (simp add: sem c)
  qed simp_all
  have ab: "abre ?bd1" by (simp add: sem tabelas_criadas_simps a)
  have "fst (login amb rel ?bd1 \<lparr>email = admin_email, password = ''123456''\<rparr>)
          = Inr \<lparr>token = jwt_encode amb
                               \<lparr>td_user_id = ?j, td_empresa_id = 1,
                                td_email = admin_email, td_funcao = Some ''admin'',
                                td_exp = utcnow rel + 7 * 86400\<rparr> (SECRET_KEY amb),
                   usuario = \<lparr>ru_id = ?j, ru_nome = ''Administrador'',
                              ru_email = admin_email, ru_funcao = Some ''admin''\<rparr>,
                   empresa = \<lparr>re_id = 1, re_nome = otica_vision,
                              re_cnpj = Some ''12.345.678/0001-90''\<rparr>\<rparr>"
    by (simp add: login_eq ab sel usuario_semente_def empresa_semente_def timedelta_days_def)
  with ok e1 show "\<exists>bd1 j. criar_banco_basico amb rel0 bd = (Inr (), bd1)
          \<and> linhas_empresas bd1 = [empresa_semente 1 (CURRENT_TIMESTAMP rel0)]
          \<and> (\<exists>r1. fst (login amb rel bd1 \<lparr>email = admin_email, password = ''123456''\<rparr>) = Inr r1
                \<and> token r1 = jwt_encode amb
                               \<lparr>td_user_id = j, td_empresa_id = 1,
                                td_email = admin_email, td_funcao = Some ''admin'',
                                td_exp = utcnow rel + 7 * 86400\<rparr> (SECRET_KEY amb))"
    by (intro exI [of _ ?bd1] exI [of _ ?j]) simp
qed


theorem login_token_claims_witness:
  "(\<exists>u e. u \<in> set (linhas_usuarios banco_exemplo) \<and> e \<in> set (linhas_empresas banco_exemplo)
           \<and> e_id e = u_empresa_id u
           \<and> u_email u = email pedido_admin
           \<and> u_senha_hash u = sha256_hexdigest amb_padrao (password pedido_admin)
           \<and> u_ativo u = Some 1
           \<and> token resposta_admin = jwt_encode amb_padrao
                          \<lparr>td_user_id = u_id u, td_empresa_id = e_id e,
                           td_email = u_email u, td_funcao = u_funcao u,
                           td_exp = utcnow rel_2 + 7 * 86400\<rparr> (SECRET_KEY amb_padrao))
   \<and> (\<exists>bd1 j. criar_banco_basico amb_padrao rel_1 banco_vazio = (Inr (), bd1)
          \<and> linhas_empresas bd1 = [empresa_semente 1 (CURRENT_TIMESTAMP rel_1)]
          \<and> (\<exists>r1. fst (login amb_padrao rel_2 bd1 \<lparr>email = admin_email, password = ''123456''\<rparr>) = Inr r1
                \<and> token r1 = jwt_encode amb_padrao
                               \<lparr>td_user_id = j, td_empresa_id = 1,
                                td_email = admin_email, td_funcao = Some ''admin'',
                                td_exp = utcnow rel_2 + 7 * 86400\<rparr> (SECRET_KEY amb_padrao)))"
proof -
  have h: "abre banco_vazio \<and> linhas_empresas banco_vazio = [] \<and> seq_empresas banco_vazio = 0
        \<and> admin_email \<notin> u_email ` set (linhas_usuarios banco_vazio)"
    by (simp add: banco_vazio_def linhas_empresas_def linhas_usuarios_def seq_empresas_def)
  note p1 = login_token_claims [where amb = amb_padrao and rel = rel_2 and bd = banco_exemplo
         and request = pedido_admin and r = resposta_admin,
         THEN conjunct1, THEN mp, OF login_admin_exemplo]
  note p2 = login_token_claims [where amb = amb_padrao and rel = rel_2 and bd = banco_vazio
         and ?rel0.0 = rel_1, THEN conjunct2, THEN mp, OF h]
  from p1 p2 show ?thesis by (rule conjI)
qed

text \<open>
  C4. The claim: the token of every successful login carries user identifier, company
  identifier, email, role and the expiry seven days after issuance, and on a
  bootstrapped store the seeded administrator logs in with "123456" and gets role
  "admin" and the seeded company's identifier. The second part does not hold on every
  store the bootstrapper seeds. Where the tables were emptied after use, the counter
  of \<open>empresas\<close> stands at 1: the bootstrapper succeeds, the seeded company gets the
  key 2, the seeded user carries the literal company identifier 1 of the \<^verbatim>\<open>INSERT\<close>
  statement, the join of the login query finds no company for it, and the login of the
  administrator ends with the 401 error.
\<close>

theorem seeded_admin_rejected_after_reuse:
  "fst (criar_banco_basico amb_padrao rel_1 banco_esvaziado) = Inr ()
   \<and> linhas_empresas (snd (criar_banco_basico amb_padrao rel_1 banco_esvaziado))
       = [empresa_semente 2 ''2026-01-01 00:16:40'']
   \<and> linhas_usuarios (snd (criar_banco_basico amb_padrao rel_1 banco_esvaziado))
       = [usuario_semente amb_padrao 2 ''2026-01-01 00:16:40'']
   \<and> fst (login amb_padrao rel_2 (snd (criar_banco_basico amb_padrao rel_1 banco_esvaziado))
            pedido_admin)
       = Inl (HTTPException 401 credenciais_invalidas)"
proof -
  have livre: "admin_email \<notin> u_email ` set (linhas_usuarios banco_esvaziado)"
    and vazia: "linhas_empresas banco_esvaziado = []" and ab: "abre banco_esvaziado"
    by (simp_all add: banco_esvaziado_def linhas_usuarios_def linhas_empresas_def)
  note sem = criar_semeia [OF ab vazia livre, of amb_padrao rel_1]
  have s: "seq_empresas banco_esvaziado = 1" "seq_usuarios banco_esvaziado = 1"
    "linhas_usuarios banco_esvaziado = []"
    by (simp_all add: banco_esvaziado_def seq_empresas_def seq_usuarios_def linhas_usuarios_def)
  have ts: "CURRENT_TIMESTAMP rel_1 = ''2026-01-01 00:16:40''" by (simp add: rel_1_def)
  have r: "fst (criar_banco_basico amb_padrao rel_1 banco_esvaziado) = Inr ()"
    by (simp add: sem)
  have e: "linhas_empresas (snd (criar_banco_basico amb_padrao rel_1 banco_esvaziado))
       = [empresa_semente 2 ''2026-01-01 00:16:40'']"
    by (simp add: sem linhas_atualiza s ts)
  have u: "linhas_usuarios (snd (criar_banco_basico amb_padrao rel_1 banco_esvaziado))
       = [usuario_semente amb_padrao 2 ''2026-01-01 00:16:40'']"
    by (simp add: sem linhas_atualiza s ts proximo_rowid_def)
  have l: "fst (login amb_padrao rel_2 (snd (criar_banco_basico amb_padrao rel_1 banco_esvaziado))
            pedido_admin) = Inl (HTTPException 401 credenciais_invalidas)"
    by (simp add: sem s login_eq select_login_def tabelas_criadas_simps ab
          usuario_semente_def empresa_semente_def pedido_admin_def proximo_rowid_def)
  from r e u l show ?thesis by simp
qed

text \<open>
  C1, as amended. The outcome of a login is the 401 error "Credenciais invalidas" if
  and only if the store opens, both tables exist and no user row matches (email,
  digest of the password, active flag 1, a company row for its company identifier).
  It is a 500 error if and only if the store does not open or a table is missing, and
  no other exception leaves the function. So, on a store that opens and has both
  tables, a request whose email belongs only to rows with another digest, or only to
  rows that are not active, gets the 401 error.
\<close>

theorem login_invalid_credentials_iff:
  "((fst (login amb rel bd request) = Inl (HTTPException 401 credenciais_invalidas))
      = (abre bd \<and> usuarios bd \<noteq> None \<and> empresas bd \<noteq> None \<and> \<not> existe_linha amb bd request))
   \<and> ((\<exists>d. fst (login amb rel bd request) = Inl (HTTPException 500 d))
      = (\<not> abre bd \<or> usuarios bd = None \<or> empresas bd = None))
   \<and> (\<forall>e. fst (login amb rel bd request) \<noteq> Inl (Erro_sqlite e))
   \<and> (abre bd \<and> usuarios bd \<noteq> None \<and> empresas bd \<noteq> None
        \<and> (\<forall>u \<in> set (linhas_usuarios bd). u_email u = email request \<longrightarrow>
               u_senha_hash u \<noteq> sha256_hexdigest amb (password request)) \<longrightarrow>
        fst (login amb rel bd request) = Inl (HTTPException 401 credenciais_invalidas))
   \<and> (abre bd \<and> usuarios bd \<noteq> None \<and> empresas bd \<noteq> None
        \<and> (\<forall>u \<in> set (linhas_usuarios bd). u_email u = email request \<longrightarrow> u_ativo u \<noteq> Some 1) \<longrightarrow>
        fst (login amb rel bd request) = Inl (HTTPException 401 credenciais_invalidas))"
proof -
  let ?h = "sha256_hexdigest amb (password request)"
  let ?out = "fst (login amb rel bd request)"
  have fechado: "?out = Inl (HTTPException 500 (''Erro no login: '' @ ''unable to open database file''))"
    if "\<not> abre bd"
    using that by (simp add: login_eq)
  have sem_tabela: "\<exists>d. ?out = Inl (HTTPException 500 d)"
    if "abre bd" and "usuarios bd = None \<or> empresas bd = None"
    using that by (auto simp: login_eq select_login_def split: option.splits)
  have com_tabelas: "?out = Inl (HTTPException 401 credenciais_invalidas) \<longleftrightarrow> \<not> existe_linha amb bd request"
    and nao_500: "\<forall>d. ?out \<noteq> Inl (HTTPException 500 d)"
    if ab: "abre bd" and t: "usuarios bd \<noteq> None" "empresas bd \<noteq> None"
  proof -
    from t select_login_Inr [of "email request" ?h bd]
    obtain rows where sel: "select_login (email request) ?h bd = Inr rows" by blast
    from select_login_vazio [OF sel]
    have v: "rows = [] \<longleftrightarrow> \<not> existe_linha amb bd request"
      by (simp add: existe_linha_def)
    from ab sel show "?out = Inl (HTTPException 401 credenciais_invalidas) \<longleftrightarrow> \<not> existe_linha amb bd request"
      unfolding v [symmetric] by (cases rows) (auto simp: login_eq)
    from ab sel show "\<forall>d. ?out \<noteq> Inl (HTTPException 500 d)"
      by (cases rows) (auto simp: login_eq)
  qed
  have c1: "(?out = Inl (HTTPException 401 credenciais_invalidas))
      = (abre bd \<and> usuarios bd \<noteq> None \<and> empresas bd \<noteq> None \<and> \<not> existe_linha amb bd request)"
    using fechado sem_tabela com_tabelas by (cases "abre bd"; cases "usuarios bd"; cases "empresas bd") auto
  have c2: "(\<exists>d. ?out = Inl (HTTPException 500 d))
      = (\<not> abre bd \<or> usuarios bd = None \<or> empresas bd = None)"
    using fechado sem_tabela nao_500 by (cases "abre bd"; cases "usuarios bd"; cases "empresas bd") auto
  have c3: "\<forall>e. ?out \<noteq> Inl (Erro_sqlite e)"
    by (auto simp: login_eq split: sum.splits list.splits)
  have c4: "?out = Inl (HTTPException 401 credenciais_invalidas)"
    if "abre bd \<and> usuarios bd \<noteq> None \<and> empresas bd \<noteq> None
        \<and> (\<forall>u \<in> set (linhas_usuarios bd). u_email u = email request \<longrightarrow> u_senha_hash u \<noteq> ?h)"
  proof -
    from that have "\<not> existe_linha amb bd request" by (auto simp: existe_linha_def)
    with that c1 show ?thesis by simp
  qed
  have c5: "?out = Inl (HTTPException 401 credenciais_invalidas)"
    if "abre bd \<and> usuarios bd \<noteq> None \<and> empresas bd \<noteq> None
        \<and> (\<forall>u \<in> set (linhas_usuarios bd). u_email u = email request \<longrightarrow> u_ativo u \<noteq> Some 1)"
  proof -
    from that have "\<not> existe_linha amb bd request" by (auto simp: existe_linha_def)
    with that c1 show ?thesis by simp
  qed
  from c1 c2 c3 c4 c5 show ?thesis by blast
qed


theorem login_invalid_credentials_iff_witness:
  "fst (login amb_padrao rel_2 banco_exemplo pedido_senha_errada)
     = Inl (HTTPException 401 credenciais_invalidas)
   \<and> fst (login amb_padrao rel_2 banco_exemplo pedido_inativo)
     = Inl (HTTPException 401 credenciais_invalidas)"
proof -
  have h1: "abre banco_exemplo \<and> usuarios banco_exemplo \<noteq> None \<and> empresas banco_exemplo \<noteq> None
        \<and> (\<forall>u \<in> set (linhas_usuarios banco_exemplo). u_email u = email pedido_senha_errada \<longrightarrow>
               u_senha_hash u \<noteq> sha256_hexdigest amb_padrao (password pedido_senha_errada))"
    by (simp add: banco_exemplo_def linhas_usuarios_def pedido_senha_errada_def
          admin_email_def amb_padrao_def)
  have h2: "abre banco_exemplo \<and> usuarios banco_exemplo \<noteq> None \<and> empresas banco_exemplo \<noteq> None
        \<and> (\<forall>u \<in> set (linhas_usuarios banco_exemplo). u_email u = email pedido_inativo \<longrightarrow>
               u_ativo u \<noteq> Some 1)"
    by (simp add: banco_exemplo_def linhas_usuarios_def pedido_inativo_def)
  note t = login_invalid_credentials_iff [where amb = amb_padrao and rel = rel_2
             and bd = banco_exemplo]
  note a = t [where request = pedido_senha_errada,
              THEN conjunct2, THEN conjunct2, THEN conjunct2, THEN conjunct1, THEN mp, OF h1]
  note b = t [where request = pedido_inativo,
              THEN conjunct2, THEN conjunct2, THEN conjunct2, THEN conjunct2, THEN mp, OF h2]
  from a b show ?thesis by (rule conjI)
qed

text \<open>
  The claim as stated (for every request, 401 exactly when no row matches) fails where
  the query cannot run: on a file without tables, and on a store that does not open
  although it holds the administrator and the password is wrong, no row matches and
  the outcome is the 500 error.
\<close>

theorem login_internal_error_counterexample:
  "\<not> existe_linha amb_padrao banco_vazio pedido_senha_errada
   \<and> fst (login amb_padrao rel_2 banco_vazio pedido_senha_errada)
       = Inl (HTTPException 500 ''Erro no login: no such table: usuarios'')
   \<and> \<not> existe_linha amb_padrao (banco_exemplo\<lparr>abre := False\<rparr>) pedido_senha_errada
   \<and> fst (login amb_padrao rel_2 (banco_exemplo\<lparr>abre := False\<rparr>) pedido_senha_errada)
       = Inl (HTTPException 500 ''Erro no login: unable to open database file'')"
  by (simp add: existe_linha_def linhas_usuarios_def linhas_empresas_def login_eq
        select_login_def banco_vazio_def banco_exemplo_def pedido_senha_errada_def
        admin_email_def amb_padrao_def)

section \<open>The listings\<close>

lemma listar_usuarios_eq:
  "fst (listar_usuarios amb rel bd) =
     (if \<not> abre bd then Inl (HTTPException 500 ''unable to open database file'')
      else case select_usuarios bd of
             Inl e \<Rightarrow> Inl (HTTPException 500 (str e))
           | Inr us \<Rightarrow> Inr \<lparr>lu_total = length us, lu_usuarios = us\<rparr>)"
  by (simp add: listar_usuarios_def get_db_eq split: sum.splits)


lemma juncao_Cons:
  "juncao (u # us) es = map (item u) (filter (\<lambda>e. u_empresa_id u = e_id e) es) @ juncao us es"
  by (induction es) (simp_all add: juncao_def)

lemma juncao_Nil: "juncao [] es = []"
  by (simp add: juncao_def)







lemma juncao_senha:
  "juncao (us[i := (us ! i)\<lparr>u_senha_hash := d\<rparr>]) es = juncao us es"
proof (induction us arbitrary: i)
  case Nil
  then show ?case by simp
next
  case (Cons u us)
  show ?case
  proof (cases i)
    case 0
    then show ?thesis by (simp add: juncao_Cons item_def)
  next
    case (Suc n)
    with Cons [of n] show ?thesis by (simp add: juncao_Cons)
  qed
qed

lemma juncao_senhas:
  "juncao (map (\<lambda>u. u\<lparr>u_senha_hash := f u\<rparr>) us) es = juncao us es"
  by (induction us) (simp_all add: juncao_Nil juncao_Cons item_def)

text \<open>
  C10. The entries of \<open>listar_usuarios\<close> have six fields, none of them the password
  digest, and the result does not depend on the stored digests: changing the digest of
  the user row at any position, or of all user rows at once, leaves the result of
  \<open>listar_usuarios\<close> as it is, whether it is a listing or an error.
\<close>

theorem listar_usuarios_ignores_digest:
  "fst (listar_usuarios amb rel
          (bd\<lparr>usuarios := map_option
                 (\<lambda>t. t\<lparr>linhas := (linhas t)[i := (linhas t ! i)\<lparr>u_senha_hash := d\<rparr>]\<rparr>)
                 (usuarios bd)\<rparr>))
     = fst (listar_usuarios amb rel bd)
   \<and> fst (listar_usuarios amb rel
          (bd\<lparr>usuarios := map_option
                 (\<lambda>t. t\<lparr>linhas := map (\<lambda>u. u\<lparr>u_senha_hash := f u\<rparr>) (linhas t)\<rparr>)
                 (usuarios bd)\<rparr>))
     = fst (listar_usuarios amb rel bd)"
  by (cases "usuarios bd"; cases "empresas bd")
     (simp_all add: listar_usuarios_eq select_usuarios_def juncao_senha juncao_senhas)

theorem listar_usuarios_ignores_digest_witness:
  "fst (listar_usuarios amb_padrao rel_1
          (banco_exemplo\<lparr>usuarios := map_option
                 (\<lambda>t. t\<lparr>linhas := (linhas t)[1 := (linhas t ! 1)\<lparr>u_senha_hash := ''outra''\<rparr>]\<rparr>)
                 (usuarios banco_exemplo)\<rparr>))
     = fst (listar_usuarios amb_padrao rel_1 banco_exemplo)"
  using listar_usuarios_ignores_digest [where amb = amb_padrao and rel = rel_1
          and bd = banco_exemplo and i = 1 and d = "''outra''"]
  by (rule conjunct1)

section \<open>The status summary of a store without rows\<close>

text \<open>
  C9, as amended. On a store that opens and whose two tables exist and hold no rows,
  \<open>status\<close> returns the success object with both active counts 0 and the number of
  table objects as table count; for the tables as the program itself creates them in a
  file that had neither, that number is 3 (with \<open>sqlite_sequence\<close>) plus the other
  table objects. While a table is missing, \<open>status\<close> returns the error object.
\<close>

theorem status_on_empty_tables:
  "(abre bd \<and> empresas bd = Some te \<and> usuarios bd = Some tu \<and> linhas te = [] \<and> linhas tu = [] \<longrightarrow>
      fst (status amb rel bd) =
        Inr \<lparr>st_status = ''ok'', st_database = True, st_ambiente = Some (ENVIRONMENT amb),
             st_tabelas = Some (2 + (if sqlite_sequence bd then 1 else 0) + outras_tabelas bd),
             st_empresas_ativas = Some 0, st_usuarios_ativos = Some 0,
             st_erro = None, st_timestamp = now_isoformat rel\<rparr>)
   \<and> (abre bd \<and> empresas bd = None \<and> usuarios bd = None \<longrightarrow>
      fst (status amb rel (tabelas_criadas bd)) =
        Inr \<lparr>st_status = ''ok'', st_database = True, st_ambiente = Some (ENVIRONMENT amb),
             st_tabelas = Some (3 + outras_tabelas bd),
             st_empresas_ativas = Some 0, st_usuarios_ativos = Some 0,
             st_erro = None, st_timestamp = now_isoformat rel\<rparr>)
   \<and> (abre bd \<and> (empresas bd = None \<or> usuarios bd = None) \<longrightarrow>
      (\<exists>txt. fst (status amb rel bd) =
        Inr \<lparr>st_status = ''error'', st_database = False, st_ambiente = None,
             st_tabelas = None, st_empresas_ativas = None, st_usuarios_ativos = None,
             st_erro = Some txt, st_timestamp = now_isoformat rel\<rparr>))"
  by (auto simp: status_def status_try_eq select_count_tabelas_def tabelas_criadas_def
        create_table_empresas_def create_table_usuarios_def split: option.splits)

theorem status_on_empty_tables_witness:
  "fst (status amb_padrao rel_1 (tabelas_criadas banco_vazio)) =
     Inr \<lparr>st_status = ''ok'', st_database = True, st_ambiente = Some ''production'',
          st_tabelas = Some 3, st_empresas_ativas = Some 0, st_usuarios_ativos = Some 0,
          st_erro = None, st_timestamp = ''2026-01-01T00:16:40''\<rparr>"
proof -
  have h: "abre banco_vazio \<and> empresas banco_vazio = None \<and> usuarios banco_vazio = None"
    by (simp add: banco_vazio_def)
  from status_on_empty_tables [where bd = banco_vazio and amb = amb_padrao and rel = rel_1,
         THEN conjunct2, THEN conjunct1, THEN mp, OF h]
  show ?thesis by (simp add: amb_padrao_def rel_1_def banco_vazio_def)
qed

text \<open>
  The claim as stated fails on the new file: it holds no table, \<open>get_db\<close> creates none,
  and \<open>status\<close> returns the error object for the missing table \<open>empresas\<close>.
\<close>

theorem status_on_new_file_counterexample:
  "fst (status amb_padrao rel_1 banco_vazio) =
     Inr \<lparr>st_status = ''error'', st_database = False, st_ambiente = None,
          st_tabelas = None, st_empresas_ativas = None, st_usuarios_ativos = None,
          st_erro = Some ''no such table: empresas'',
          st_timestamp = ''2026-01-01T00:16:40''\<rparr>
   \<and> select_count_tabelas banco_vazio = 0"
  by (simp add: status_def status_try_eq banco_vazio_def rel_1_def select_count_tabelas_def)

end
